theory Spec2Isabelle
  imports Complex_Main "HOL-Library.Sublist"
begin

section \<open>Python values, exceptions and the external libraries\<close>

text \<open>
  The notebook \<^verbatim>\<open>Lab_10.ipynb\<close> is glue code over \<^verbatim>\<open>transformers\<close>, \<^verbatim>\<open>PIL\<close> and
  \<^verbatim>\<open>torch\<close>. The values its cells handle are literals (strings, lists of strings,
  booleans, integers), the classes and modules its imports bind, and objects the libraries
  hand back. \<open>VName q\<close> is an imported class, module or builtin with qualified name \<open>q\<close>;
  \<open>VHandle n\<close> is an opaque library object (a model, a processor, an image);
  \<open>VStruct\<close> is a library mapping whose fields are read as attributes and unpacked with
  \<^verbatim>\<open>**\<close> (\<^verbatim>\<open>BatchEncoding\<close>, \<^verbatim>\<open>ModelOutput\<close>); \<open>VTensor\<close> is a two-dimensional tensor
  given by its entries, one inner list per row, each entry the number its floating-point
  value denotes (the libraries compute with tensors, the notebook only passes them on); a
  batch of generated token sequences is a \<open>VList\<close> of sequences.
\<close>

datatype pyval =
    VNone
  | VBool bool
  | VInt int
  | VStr string
  | VList "pyval list"
  | VStruct "(string \<times> pyval) list"
  | VTensor "real list list"
  | VName string
  | VHandle nat

text \<open>
  Exceptions are values. The first five are raised by the Python interpreter itself;
  \<open>LibraryError\<close> stands for whatever an external library raises
  (\<^verbatim>\<open>FileNotFoundError\<close>, \<^verbatim>\<open>OSError\<close>, ...), named by its argument.
\<close>

datatype exn =
    NameError string
  | UnboundLocalError string
  | AttributeError string
  | TypeError string
  | IndexError
  | LibraryError string

text \<open>
  A call into a library: the receiver, the method (\<^verbatim>\<open>__call__\<close> for a direct call), the
  positional and the keyword arguments. The libraries are a parameter of every definition
  below: a function from the gradient mode, the call and the state of the outside world
  (file system, network, model cache, terminal) to a result and a new world. Nothing is
  assumed about it. Every call is logged with the gradient mode it ran under and its result.
\<close>

datatype call = Call (receiver: pyval) (meth: string) (args: "pyval list")
  (kwargs: "(string \<times> pyval) list")

datatype event = Event (ev_grad: bool) (ev_call: call) (ev_result: "exn + pyval")

text \<open>Reading a value as a mapping, a sequence or a string.\<close>

fun fields_of :: "pyval \<Rightarrow> (string \<times> pyval) list option" where
  "fields_of (VStruct items) = Some items"
| "fields_of v = None"

fun items_of :: "pyval \<Rightarrow> pyval list option" where
  "items_of (VList xs) = Some xs"
| "items_of v = None"

fun str_of :: "pyval \<Rightarrow> string option" where
  "str_of (VStr x) = Some x"
| "str_of v = None"

type_synonym 'w lib = "bool \<Rightarrow> call \<Rightarrow> 'w \<Rightarrow> (exn + pyval) \<times> 'w"

text \<open>
  The state of the kernel: the module-level names, the local names of the running function,
  torch's gradient mode, the outside world and the log of library calls.
\<close>

record 'w state =
  globals :: "string \<rightharpoonup> pyval"
  locals :: "string \<rightharpoonup> pyval"
  grad_enabled :: bool
  world :: 'w
  trace :: "event list"

type_synonym ('a, 'w) comp = "'w state \<Rightarrow> (exn + 'a) \<times> 'w state"

definition kernel_start :: "'w \<Rightarrow> 'w state" where
  "kernel_start w =
     \<lparr>globals = [''__name__'' \<mapsto> VStr ''__main__''], locals = Map.empty,
      grad_enabled = True, world = w, trace = []\<rparr>"

section \<open>Statements and expressions\<close>

definition lit :: "'a \<Rightarrow> ('a, 'w) comp" where
  "lit v s = (Inr v, s)"

definition raise :: "exn \<Rightarrow> ('a, 'w) comp" where
  "raise e s = (Inl e, s)"

text \<open>Sequencing: an exception of the first part ends the computation.\<close>

definition then_do :: "('a, 'w) comp \<Rightarrow> ('a \<Rightarrow> ('b, 'w) comp) \<Rightarrow> ('b, 'w) comp" where
  "then_do m f s = (case m s of (Inl e, s') \<Rightarrow> (Inl e, s') | (Inr v, s') \<Rightarrow> f v s')"

definition builtins :: "string \<rightharpoonup> pyval" where
  "builtins x = (if x = ''print'' then Some (VName ''builtins.print'') else None)"

text \<open>A name read at module level, or a name a function does not assign: globals, then builtins.\<close>

definition name :: "string \<Rightarrow> (pyval, 'w) comp" where
  "name x s =
     (case globals s x of
        Some v \<Rightarrow> (Inr v, s)
      | None \<Rightarrow> (case builtins x of Some v \<Rightarrow> (Inr v, s) | None \<Rightarrow> (Inl (NameError x), s)))"

text \<open>A name a function assigns (or a parameter) is local to it.\<close>

definition local_name :: "string \<Rightarrow> (pyval, 'w) comp" where
  "local_name x s =
     (case locals s x of Some v \<Rightarrow> (Inr v, s) | None \<Rightarrow> (Inl (UnboundLocalError x), s))"

fun eval_all :: "(pyval, 'w) comp list \<Rightarrow> (pyval list, 'w) comp" where
  "eval_all [] = lit []"
| "eval_all (e # es) = then_do e (\<lambda>v. then_do (eval_all es) (\<lambda>vs. lit (v # vs)))"

fun eval_kwargs :: "(string \<times> (pyval, 'w) comp) list \<Rightarrow> ((string \<times> pyval) list, 'w) comp" where
  "eval_kwargs [] = lit []"
| "eval_kwargs ((k, e) # es) =
     then_do e (\<lambda>v. then_do (eval_kwargs es) (\<lambda>vs. lit ((k, v) # vs)))"

definition extern :: "'w lib \<Rightarrow> call \<Rightarrow> (pyval, 'w) comp" where
  "extern L c s =
     (case L (grad_enabled s) c (world s) of
        (r, w') \<Rightarrow> (r, s\<lparr>world := w', trace := trace s @ [Event (grad_enabled s) c r]\<rparr>))"

text \<open>
  Every method of a library object is a call into the libraries, \<^verbatim>\<open>Tensor.softmax\<close> and
  \<^verbatim>\<open>print\<close> included: the notebook computes nothing itself.
\<close>

definition invoke :: "'w lib \<Rightarrow> pyval \<Rightarrow> string \<Rightarrow> pyval list \<Rightarrow> (string \<times> pyval) list \<Rightarrow> (pyval, 'w) comp" where
  "invoke L r m vs kvs = extern L (Call r m vs kvs)"

text \<open>\<^verbatim>\<open>obj.m(a, ..., k=b, ...)\<close>: the receiver first, then the arguments left to right.\<close>

definition call_method ::
  "'w lib \<Rightarrow> (pyval, 'w) comp \<Rightarrow> string \<Rightarrow> (pyval, 'w) comp list \<Rightarrow>
   (string \<times> (pyval, 'w) comp) list \<Rightarrow> (pyval, 'w) comp" where
  "call_method L obj m as kws =
     then_do obj (\<lambda>r. then_do (eval_all as) (\<lambda>vs. then_do (eval_kwargs kws) (\<lambda>kvs.
       invoke L r m vs kvs)))"

text \<open>\<^verbatim>\<open>f(a, ..., k=b, ...)\<close>\<close>

definition call_fn ::
  "'w lib \<Rightarrow> (pyval, 'w) comp \<Rightarrow> (pyval, 'w) comp list \<Rightarrow>
   (string \<times> (pyval, 'w) comp) list \<Rightarrow> (pyval, 'w) comp" where
  "call_fn L f as kws = call_method L f ''__call__'' as kws"

text \<open>\<^verbatim>\<open>obj.m(**d)\<close>: the fields of the mapping become the keyword arguments.\<close>

definition call_method_unpack ::
  "'w lib \<Rightarrow> (pyval, 'w) comp \<Rightarrow> string \<Rightarrow> (pyval, 'w) comp \<Rightarrow> (pyval, 'w) comp" where
  "call_method_unpack L obj m d =
     then_do obj (\<lambda>r. then_do d (\<lambda>dv.
       (case fields_of dv of
          Some items \<Rightarrow> invoke L r m [] items
        | None \<Rightarrow> raise (TypeError ''argument after ** must be a mapping''))))"

definition call_fn_unpack :: "'w lib \<Rightarrow> (pyval, 'w) comp \<Rightarrow> (pyval, 'w) comp \<Rightarrow> (pyval, 'w) comp" where
  "call_fn_unpack L f d = call_method_unpack L f ''__call__'' d"

text \<open>\<^verbatim>\<open>e.a\<close>, read (not called): a field of a library mapping.\<close>

definition attr :: "(pyval, 'w) comp \<Rightarrow> string \<Rightarrow> (pyval, 'w) comp" where
  "attr e a =
     then_do e (\<lambda>v.
       (case fields_of v of
          Some items \<Rightarrow>
            (case map_of items a of Some x \<Rightarrow> lit x | None \<Rightarrow> raise (AttributeError a))
        | None \<Rightarrow> raise (AttributeError a)))"

text \<open>\<^verbatim>\<open>e[i]\<close> on a sequence: negative indices count from the end, out of range raises.\<close>

definition subscript :: "(pyval, 'w) comp \<Rightarrow> int \<Rightarrow> (pyval, 'w) comp" where
  "subscript e i =
     then_do e (\<lambda>v.
       (case items_of v of
          Some xs \<Rightarrow>
            (let n = int (length xs); j = (if i < 0 then n + i else i)
             in if 0 \<le> j \<and> j < n then lit (xs ! nat j) else raise IndexError)
        | None \<Rightarrow> raise (TypeError ''object is not subscriptable'')))"

text \<open>
  A replacement field of an f-string: a string stands for itself, any other object is asked
  for its \<^verbatim>\<open>__format__\<close>.
\<close>

definition format_value :: "'w lib \<Rightarrow> pyval \<Rightarrow> (string, 'w) comp" where
  "format_value L v =
     (case str_of v of
        Some x \<Rightarrow> lit x
      | None \<Rightarrow>
          then_do (extern L (Call v ''__format__'' [VStr ''''] [])) (\<lambda>r.
            (case str_of r of
               Some x \<Rightarrow> lit x
             | None \<Rightarrow> raise (TypeError ''__format__ must return a str''))))"

text \<open>\<^verbatim>\<open>f"prefix{e}"\<close>\<close>

definition fstring :: "'w lib \<Rightarrow> string \<Rightarrow> (pyval, 'w) comp \<Rightarrow> (pyval, 'w) comp" where
  "fstring L pre e =
     then_do e (\<lambda>v. then_do (format_value L v) (\<lambda>s. lit (VStr (pre @ s))))"

text \<open>Binding a module-level name, binding a local name, and the assignments \<^verbatim>\<open>x = e\<close>.\<close>

definition bind_global :: "string \<Rightarrow> pyval \<Rightarrow> (pyval, 'w) comp" where
  "bind_global x v s = (Inr VNone, s\<lparr>globals := (globals s)(x \<mapsto> v)\<rparr>)"

definition bind_local :: "string \<Rightarrow> pyval \<Rightarrow> (pyval, 'w) comp" where
  "bind_local x v s = (Inr VNone, s\<lparr>locals := (locals s)(x \<mapsto> v)\<rparr>)"

definition assign :: "string \<Rightarrow> (pyval, 'w) comp \<Rightarrow> (pyval, 'w) comp" where
  "assign x e = then_do e (bind_global x)"

definition assign_local :: "string \<Rightarrow> (pyval, 'w) comp \<Rightarrow> (pyval, 'w) comp" where
  "assign_local x e = then_do e (bind_local x)"

definition expr_stmt :: "(pyval, 'w) comp \<Rightarrow> (pyval, 'w) comp" where
  "expr_stmt e = then_do e (\<lambda>v. lit VNone)"

text \<open>
  Imports bind names to the library's classes and modules. The packages are taken to be
  installed, as the recorded outputs of the notebook show they were.
\<close>

fun block :: "(pyval, 'w) comp list \<Rightarrow> (pyval, 'w) comp" where
  "block [] = lit VNone"
| "block (c # cs) = then_do c (\<lambda>v. block cs)"

definition import_as :: "string \<Rightarrow> string \<Rightarrow> (pyval, 'w) comp" where
  "import_as m x = bind_global x (VName m)"

definition import_module :: "string \<Rightarrow> (pyval, 'w) comp" where
  "import_module m = import_as m m"

definition import_from :: "string \<Rightarrow> string list \<Rightarrow> (pyval, 'w) comp" where
  "import_from m xs = block (map (\<lambda>x. bind_global x (VName (m @ ''.'' @ x))) xs)"

text \<open>
  \<^verbatim>\<open>with torch.no_grad(): body\<close> switches gradient tracking off for the body and puts the
  previous mode back when the body ends, normally or with an exception, which it lets through.
\<close>

definition no_grad_scope :: "('a, 'w) comp \<Rightarrow> ('a, 'w) comp" where
  "no_grad_scope body s =
     (case body (s\<lparr>grad_enabled := False\<rparr>) of
        (r, s') \<Rightarrow> (r, s'\<lparr>grad_enabled := grad_enabled s\<rparr>))"

definition with_no_grad :: "(pyval, 'w) comp \<Rightarrow> (pyval, 'w) comp" where
  "with_no_grad body =
     then_do (name ''torch'') (\<lambda>t.
       if t = VName ''torch'' then no_grad_scope body
       else raise (AttributeError ''no_grad''))"

text \<open>\<^verbatim>\<open>def f(...)\<close> binds the name to the function; \<^verbatim>\<open>if __name__ == "__main__":\<close>\<close>

definition def_fun :: "string \<Rightarrow> (pyval, 'w) comp" where
  "def_fun f = bind_global f (VName (''__main__.'' @ f))"

definition if_main :: "(pyval, 'w) comp \<Rightarrow> (pyval, 'w) comp" where
  "if_main body =
     then_do (name ''__name__'') (\<lambda>v. if v = VStr ''__main__'' then body else lit VNone)"

text \<open>A call runs the body in a frame of its own and gives the caller's frame back.\<close>

definition in_frame :: "(string \<times> pyval) list \<Rightarrow> ('a, 'w) comp \<Rightarrow> ('a, 'w) comp" where
  "in_frame params body s =
     (case body (s\<lparr>locals := map_of params\<rparr>) of (r, s') \<Rightarrow> (r, s'\<lparr>locals := locals s\<rparr>))"

section \<open>The notebook\<close>

subsection \<open>Setup cell\<close>

definition cell_imports :: "'w lib \<Rightarrow> (pyval, 'w) comp" where
  "cell_imports L = block
     [import_from ''transformers'' [''ViTForImageClassification'', ''ViTImageProcessor''],
      import_from ''PIL'' [''Image''],
      import_module ''requests'',
      import_as ''matplotlib.pyplot'' ''plt'',
      import_as ''numpy'' ''np'',
      import_from ''sentence_transformers'' [''SentenceTransformer'', ''util'']]"

subsection \<open>CLIP similarity cells\<close>

definition cell_clip1 :: "'w lib \<Rightarrow> (pyval, 'w) comp" where
  "cell_clip1 L = block
     [import_from ''transformers'' [''CLIPProcessor'', ''CLIPModel''],
      import_from ''PIL'' [''Image''],
      assign ''model'' (call_method L (name ''CLIPModel'') ''from_pretrained''
        [lit (VStr ''openai/clip-vit-base-patch32'')] []),
      assign ''processor'' (call_method L (name ''CLIPProcessor'') ''from_pretrained''
        [lit (VStr ''openai/clip-vit-base-patch32'')] []),
      assign ''texts'' (lit (VList [VStr ''A photo of a cat'', VStr ''A photo of a dog''])),
      assign ''image'' (call_method L (name ''Image'') ''open'' [lit (VStr ''cat.jpg'')] []),
      assign ''inputs'' (call_fn L (name ''processor'') []
        [(''text'', name ''texts''), (''images'', name ''image''),
         (''return_tensors'', lit (VStr ''pt'')), (''padding'', lit (VBool True))]),
      assign ''outputs'' (call_fn_unpack L (name ''model'') (name ''inputs'')),
      assign ''logits_per_image'' (attr (name ''outputs'') ''logits_per_image''),
      expr_stmt (call_fn L (name ''print'')
        [call_method L (name ''logits_per_image'') ''softmax'' [] [(''dim'', lit (VInt 1))]] [])]"

definition cell_clip2 :: "'w lib \<Rightarrow> (pyval, 'w) comp" where
  "cell_clip2 L = block
     [assign ''texts2'' (lit (VList [VStr ''A photo of a cat'', VStr ''A photo of a dog''])),
      assign ''image2'' (call_method L (name ''Image'') ''open'' [lit (VStr ''cat_dog.jpg'')] []),
      assign ''inputs'' (call_fn L (name ''processor'') []
        [(''text'', name ''texts2''), (''images'', name ''image2''),
         (''return_tensors'', lit (VStr ''pt'')), (''padding'', lit (VBool True))]),
      assign ''outputs2'' (call_fn_unpack L (name ''model'') (name ''inputs'')),
      assign ''logits_per_image2'' (attr (name ''outputs2'') ''logits_per_image''),
      expr_stmt (call_fn L (name ''print'')
        [call_method L (name ''logits_per_image2'') ''softmax'' [] [(''dim'', lit (VInt 1))]] [])]"

subsection \<open>BLIP question answering cell\<close>

definition perform_blip_qa :: "'w lib \<Rightarrow> pyval \<Rightarrow> pyval \<Rightarrow> (pyval, 'w) comp" where
  "perform_blip_qa L image_path question =
     in_frame [(''image_path'', image_path), (''question'', question)]
       (then_do (block
          [assign_local ''processor'' (call_method L (name ''BlipProcessor'') ''from_pretrained''
             [lit (VStr ''Salesforce/blip-vqa-base'')] []),
           assign_local ''model'' (call_method L (name ''BlipForQuestionAnswering'')
             ''from_pretrained'' [lit (VStr ''Salesforce/blip-vqa-base'')] []),
           assign_local ''image'' (call_method L
             (call_method L (name ''Image'') ''open'' [local_name ''image_path''] [])
             ''convert'' [lit (VStr ''RGB'')] []),
           assign_local ''inputs'' (call_fn L (local_name ''processor'')
             [local_name ''image'', local_name ''question'']
             [(''return_tensors'', lit (VStr ''pt''))]),
           with_no_grad (block
             [assign_local ''generated_ids''
                (call_method_unpack L (local_name ''model'') ''generate'' (local_name ''inputs''))]),
           assign_local ''answer'' (call_method L (local_name ''processor'') ''decode''
             [subscript (local_name ''generated_ids'') 0]
             [(''skip_special_tokens'', lit (VBool True))])])
          (\<lambda>v. local_name ''answer''))"

text \<open>
  The call \<^verbatim>\<open>perform_blip_qa(image_path, question)\<close> of the cell: the name is looked up,
  and the function defined above runs when the name is still bound to it.
\<close>

definition call_perform_blip_qa ::
  "'w lib \<Rightarrow> (pyval, 'w) comp \<Rightarrow> (pyval, 'w) comp \<Rightarrow> (pyval, 'w) comp" where
  "call_perform_blip_qa L a b =
     then_do (name ''perform_blip_qa'') (\<lambda>f. then_do a (\<lambda>x. then_do b (\<lambda>y.
       if f = VName ''__main__.perform_blip_qa'' then perform_blip_qa L x y
       else extern L (Call f ''__call__'' [x, y] []))))"

definition cell_blip :: "'w lib \<Rightarrow> (pyval, 'w) comp" where
  "cell_blip L = block
     [import_module ''torch'',
      import_from ''transformers'' [''BlipProcessor'', ''BlipForQuestionAnswering''],
      import_from ''PIL'' [''Image''],
      def_fun ''perform_blip_qa'',
      if_main (block
        [assign ''image_path'' (lit (VStr ''cat.jpg'')),
         assign ''question'' (lit (VStr ''What color is the cat?'')),
         assign ''answer'' (call_perform_blip_qa L (name ''image_path'') (name ''question'')),
         expr_stmt (call_fn L (name ''print'') [fstring L ''Question: '' (name ''question'')] []),
         expr_stmt (call_fn L (name ''print'') [fstring L ''Answer: '' (name ''answer'')] [])])]"

subsection \<open>The cells in order\<close>

datatype 'w cell = Markdown | Code "'w lib \<Rightarrow> (pyval, 'w) comp"

definition notebook :: "'w cell list" where
  "notebook =
     [Markdown, Markdown, Code cell_imports,
      Markdown, Markdown, Markdown, Markdown, Markdown, Markdown, Markdown, Markdown,
      Code cell_clip1, Code cell_clip2,
      Markdown, Markdown, Markdown, Markdown, Markdown, Markdown, Markdown, Markdown,
      Code cell_blip,
      Markdown, Markdown, Markdown]"

fun code_cells :: "'w cell list \<Rightarrow> ('w lib \<Rightarrow> (pyval, 'w) comp) list" where
  "code_cells [] = []"
| "code_cells (Markdown # cs) = code_cells cs"
| "code_cells (Code c # cs) = c # code_cells cs"

text \<open>Run All: the code cells top to bottom, stopping at the first exception.\<close>

definition run_all :: "'w lib \<Rightarrow> (pyval, 'w) comp" where
  "run_all L = block (map (\<lambda>c. c L) (code_cells notebook))"

section \<open>Properties of runs\<close>

text \<open>
  What a computation adds to the log. A computation \<open>behaves\<close> under \<open>Q\<close> when, from every
  state and whatever the libraries answer, it leaves the gradient mode as it found it, only
  appends to the log, every call it makes satisfies \<open>Q\<close> (of the gradient mode at the start,
  the mode the call ran under and the method called), and an exception raised by a library
  call ends the computation at that call with that very exception as its result.
\<close>

definition new_events :: "'w state \<Rightarrow> 'w state \<Rightarrow> event list" where
  "new_events s s' = drop (length (trace s)) (trace s')"

definition behaves :: "(bool \<Rightarrow> bool \<Rightarrow> string \<Rightarrow> bool) \<Rightarrow> ('a, 'w) comp \<Rightarrow> bool" where
  "behaves Q c \<longleftrightarrow>
     (\<forall>s. grad_enabled (snd (c s)) = grad_enabled s \<and>
        (\<exists>evs. trace (snd (c s)) = trace s @ evs \<and>
           (\<forall>ev\<in>set evs. Q (grad_enabled s) (ev_grad ev) (meth (ev_call ev))) \<and>
           (\<forall>ev\<in>set evs. \<forall>e. ev_result ev = Inl e \<longrightarrow> fst (c s) = Inl e \<and> last evs = ev)))"

definition propagates :: "('a, 'w) comp \<Rightarrow> bool" where
  "propagates c \<longleftrightarrow>
     (\<forall>s. \<exists>evs. trace (snd (c s)) = trace s @ evs \<and>
        (\<forall>ev\<in>set evs. \<forall>e. ev_result ev = Inl e \<longrightarrow> fst (c s) = Inl e \<and> last evs = ev))"

text \<open>The calls of the CLIP cells; the calls of the BLIP cell and of its function.\<close>

definition clip_calls :: "bool \<Rightarrow> bool \<Rightarrow> string \<Rightarrow> bool" where
  "clip_calls g eg m \<longleftrightarrow>
     eg = g \<and> m \<in> set [''from_pretrained'', ''open'', ''__call__'', ''softmax'']"

definition clip2_calls :: "bool \<Rightarrow> bool \<Rightarrow> string \<Rightarrow> bool" where
  "clip2_calls g eg m \<longleftrightarrow> eg = g \<and> m \<in> set [''open'', ''__call__'', ''softmax'']"

definition blip_calls :: "bool \<Rightarrow> bool \<Rightarrow> string \<Rightarrow> bool" where
  "blip_calls g eg m \<longleftrightarrow>
     (if m = ''generate'' then \<not> eg
      else eg = g \<and>
        m \<in> set [''from_pretrained'', ''open'', ''convert'', ''__call__'', ''decode'', ''__format__''])"

text \<open>
  A kernel in which no cell has rebound \<^verbatim>\<open>print\<close> or \<^verbatim>\<open>Image\<close> and gradient tracking is
  on, as in a fresh kernel and after any cell of the notebook; a kernel in which the imports
  of the BLIP cell have run.
\<close>

definition kernel_ok :: "'w state \<Rightarrow> bool" where
  "kernel_ok s \<longleftrightarrow>
     globals s ''print'' = None \<and>
     globals s ''__name__'' = Some (VStr ''__main__'') \<and>
     grad_enabled s \<and>
     (case globals s ''Image'' of None \<Rightarrow> True | Some v \<Rightarrow> v = VName ''PIL.Image'')"

definition blip_imports :: "'w state \<Rightarrow> bool" where
  "blip_imports s \<longleftrightarrow>
     globals s ''torch'' = Some (VName ''torch'') \<and>
     globals s ''BlipProcessor'' = Some (VName ''transformers.BlipProcessor'') \<and>
     globals s ''BlipForQuestionAnswering'' =
       Some (VName ''transformers.BlipForQuestionAnswering'') \<and>
     globals s ''Image'' = Some (VName ''PIL.Image'')"

text \<open>
  A stand-in for the libraries, for test runs: the two image files of the notebook exist and
  no other, every model loads, and the world counts the calls made. Its CLIP model scores
  the two captions 3 and 5, and \<^verbatim>\<open>softmax(dim=1)\<close> of these logits is the row that binary32
  arithmetic gives, \<open>15999145 / 2\<^sup>2\<^sup>7\<close> and \<open>7388661 / 2\<^sup>2\<^sup>3\<close> (printed as 0.1192 and 0.8808).
\<close>

definition demo_lib :: "nat lib" where
  "demo_lib g c w =
     (if meth c = ''from_pretrained'' then
        (if receiver c = VName ''transformers.CLIPModel'' then Inr (VHandle 1)
         else if receiver c = VName ''transformers.CLIPProcessor'' then Inr (VHandle 2)
         else if receiver c = VName ''transformers.BlipProcessor'' then Inr (VHandle 3)
         else if receiver c = VName ''transformers.BlipForQuestionAnswering'' then Inr (VHandle 4)
         else Inl (LibraryError ''OSError''))
      else if meth c = ''open'' then
        (if args c = [VStr ''cat.jpg''] then Inr (VHandle 10)
         else if args c = [VStr ''cat_dog.jpg''] then Inr (VHandle 11)
         else Inl (LibraryError ''FileNotFoundError''))
      else if meth c = ''convert'' then Inr (VHandle 12)
      else if meth c = ''__call__'' then
        (if receiver c = VHandle 1
         then Inr (VStruct [(''logits_per_image'', VTensor [[3, 5]])])
         else if receiver c = VName ''builtins.print'' then Inr VNone
         else Inr (VStruct [(''pixel_values'', VHandle 20)]))
      else if meth c = ''generate'' then Inr (VList [VList [VInt 101, VInt 4589, VInt 102]])
      else if meth c = ''decode'' then Inr (VStr ''orange and white'')
      else if meth c = ''softmax'' then
        (if receiver c = VTensor [[3, 5]] \<and> kwargs c = [(''dim'', VInt 1)]
         then Inr (VTensor [[15999145 / 134217728, 7388661 / 8388608]])
         else Inl (LibraryError ''RuntimeError''))
      else Inl (LibraryError ''AttributeError''),
      Suc w)"

definition blip_kernel :: "nat state" where
  "blip_kernel =
     \<lparr>globals = [''__name__'' \<mapsto> VStr ''__main__'', ''torch'' \<mapsto> VName ''torch'',
        ''BlipProcessor'' \<mapsto> VName ''transformers.BlipProcessor'',
        ''BlipForQuestionAnswering'' \<mapsto> VName ''transformers.BlipForQuestionAnswering'',
        ''Image'' \<mapsto> VName ''PIL.Image''],
      locals = Map.empty, grad_enabled = True, world = 0, trace = []\<rparr>"

text \<open>
  The library calls of a complete run, as functions of what the libraries returned. A
  similarity cell opens its image, runs the processor on the two captions and the image,
  runs the model on the processor's output, asks the logits for their softmax along
  dimension 1 and prints what it got; the first one loads model and processor before that. \<^verbatim>\<open>perform_blip_qa\<close> loads processor and
  model, opens the image, converts it, runs the processor, generates and decodes.
\<close>

definition clip_texts :: pyval where
  "clip_texts = VList [VStr ''A photo of a cat'', VStr ''A photo of a dog'']"

definition clip_loads :: "pyval \<Rightarrow> pyval \<Rightarrow> event list" where
  "clip_loads model proc =
     [Event True (Call (VName ''transformers.CLIPModel'') ''from_pretrained''
        [VStr ''openai/clip-vit-base-patch32''] []) (Inr model),
      Event True (Call (VName ''transformers.CLIPProcessor'') ''from_pretrained''
        [VStr ''openai/clip-vit-base-patch32''] []) (Inr proc)]"

definition similarity_events ::
  "pyval \<Rightarrow> pyval \<Rightarrow> string \<Rightarrow> pyval \<Rightarrow> (string \<times> pyval) list \<Rightarrow> (string \<times> pyval) list \<Rightarrow>
   pyval \<Rightarrow> pyval \<Rightarrow> pyval \<Rightarrow> event list" where
  "similarity_events proc model path img inputs outs logits shown r =
     [Event True (Call (VName ''PIL.Image'') ''open'' [VStr path] []) (Inr img),
      Event True (Call proc ''__call__'' []
        [(''text'', clip_texts), (''images'', img), (''return_tensors'', VStr ''pt''),
         (''padding'', VBool True)]) (Inr (VStruct inputs)),
      Event True (Call model ''__call__'' [] inputs) (Inr (VStruct outs)),
      Event True (Call logits ''softmax'' [] [(''dim'', VInt 1)]) (Inr shown),
      Event True (Call (VName ''builtins.print'') ''__call__'' [shown] []) (Inr r)]"

text \<open>The module-level names after a complete run of a similarity cell.\<close>

definition clip1_globals ::
  "(string \<rightharpoonup> pyval) \<Rightarrow> pyval \<Rightarrow> pyval \<Rightarrow> pyval \<Rightarrow> (string \<times> pyval) list \<Rightarrow>
   (string \<times> pyval) list \<Rightarrow> pyval \<Rightarrow> (string \<rightharpoonup> pyval)" where
  "clip1_globals gl model proc img inputs outs logits =
     gl(''CLIPProcessor'' \<mapsto> VName ''transformers.CLIPProcessor'',
        ''CLIPModel'' \<mapsto> VName ''transformers.CLIPModel'',
        ''Image'' \<mapsto> VName ''PIL.Image'',
        ''model'' \<mapsto> model, ''processor'' \<mapsto> proc, ''texts'' \<mapsto> clip_texts,
        ''image'' \<mapsto> img, ''inputs'' \<mapsto> VStruct inputs, ''outputs'' \<mapsto> VStruct outs,
        ''logits_per_image'' \<mapsto> logits)"

definition clip2_globals ::
  "(string \<rightharpoonup> pyval) \<Rightarrow> pyval \<Rightarrow> (string \<times> pyval) list \<Rightarrow>
   (string \<times> pyval) list \<Rightarrow> pyval \<Rightarrow> (string \<rightharpoonup> pyval)" where
  "clip2_globals gl img inputs outs logits =
     gl(''texts2'' \<mapsto> clip_texts, ''image2'' \<mapsto> img, ''inputs'' \<mapsto> VStruct inputs,
        ''outputs2'' \<mapsto> VStruct outs, ''logits_per_image2'' \<mapsto> logits)"

definition blip_qa_events ::
  "bool \<Rightarrow> pyval \<Rightarrow> pyval \<Rightarrow> pyval \<Rightarrow> pyval \<Rightarrow> pyval \<Rightarrow> pyval \<Rightarrow> (string \<times> pyval) list \<Rightarrow>
   pyval list \<Rightarrow> pyval \<Rightarrow> event list" where
  "blip_qa_events g image_path question proc model img rgb inputs seqs answer =
     [Event g (Call (VName ''transformers.BlipProcessor'') ''from_pretrained''
        [VStr ''Salesforce/blip-vqa-base''] []) (Inr proc),
      Event g (Call (VName ''transformers.BlipForQuestionAnswering'') ''from_pretrained''
        [VStr ''Salesforce/blip-vqa-base''] []) (Inr model),
      Event g (Call (VName ''PIL.Image'') ''open'' [image_path] []) (Inr img),
      Event g (Call img ''convert'' [VStr ''RGB''] []) (Inr rgb),
      Event g (Call proc ''__call__'' [rgb, question] [(''return_tensors'', VStr ''pt'')])
        (Inr (VStruct inputs)),
      Event False (Call model ''generate'' [] inputs) (Inr (VList seqs)),
      Event g (Call proc ''decode'' [hd seqs] [(''skip_special_tokens'', VBool True)])
        (Inr answer)]"

text \<open>
  The module-level names after the setup cell and after a complete run of the BLIP cell.
\<close>

definition imports_globals :: "(string \<rightharpoonup> pyval) \<Rightarrow> (string \<rightharpoonup> pyval)" where
  "imports_globals gl =
     gl(''ViTForImageClassification'' \<mapsto> VName ''transformers.ViTForImageClassification'',
        ''ViTImageProcessor'' \<mapsto> VName ''transformers.ViTImageProcessor'',
        ''Image'' \<mapsto> VName ''PIL.Image'',
        ''requests'' \<mapsto> VName ''requests'',
        ''plt'' \<mapsto> VName ''matplotlib.pyplot'',
        ''np'' \<mapsto> VName ''numpy'',
        ''SentenceTransformer'' \<mapsto> VName ''sentence_transformers.SentenceTransformer'',
        ''util'' \<mapsto> VName ''sentence_transformers.util'')"

definition blip_globals :: "(string \<rightharpoonup> pyval) \<Rightarrow> pyval \<Rightarrow> (string \<rightharpoonup> pyval)" where
  "blip_globals gl answer =
     gl(''torch'' \<mapsto> VName ''torch'',
        ''BlipProcessor'' \<mapsto> VName ''transformers.BlipProcessor'',
        ''BlipForQuestionAnswering'' \<mapsto> VName ''transformers.BlipForQuestionAnswering'',
        ''Image'' \<mapsto> VName ''PIL.Image'',
        ''perform_blip_qa'' \<mapsto> VName ''__main__.perform_blip_qa'',
        ''image_path'' \<mapsto> VStr ''cat.jpg'',
        ''question'' \<mapsto> VStr ''What color is the cat?'',
        ''answer'' \<mapsto> answer)"

text \<open>
  The calls of a complete run of the BLIP cell: those of \<^verbatim>\<open>perform_blip_qa\<close>, the print of the
  question, and the print of the answer, which is first asked for its \<^verbatim>\<open>__format__\<close> when
  it is not a string.
\<close>

definition format_events :: "pyval \<Rightarrow> string \<Rightarrow> event list" where
  "format_events v txt =
     (case str_of v of
        Some x \<Rightarrow> []
      | None \<Rightarrow> [Event True (Call v ''__format__'' [VStr ''''] []) (Inr (VStr txt))])"

definition text_of :: "pyval \<Rightarrow> string \<Rightarrow> string" where
  "text_of v txt = (case str_of v of Some x \<Rightarrow> x | None \<Rightarrow> txt)"

definition blip_cell_events ::
  "pyval \<Rightarrow> pyval \<Rightarrow> pyval \<Rightarrow> pyval \<Rightarrow> (string \<times> pyval) list \<Rightarrow> pyval list \<Rightarrow> pyval \<Rightarrow> string \<Rightarrow>
   pyval \<Rightarrow> pyval \<Rightarrow> event list" where
  "blip_cell_events proc model img rgb inputs seqs answer txt r1 r2 =
     blip_qa_events True (VStr ''cat.jpg'') (VStr ''What color is the cat?'')
       proc model img rgb inputs seqs answer @
     [Event True (Call (VName ''builtins.print'') ''__call__''
        [VStr ''Question: What color is the cat?''] []) (Inr r1)] @
     format_events answer txt @
     [Event True (Call (VName ''builtins.print'') ''__call__''
        [VStr (''Answer: '' @ text_of answer txt)] []) (Inr r2)]"

text \<open>The value the \<open>i\<close>-th call of a log returned, and values read as their parts.\<close>

definition result_val :: "event list \<Rightarrow> nat \<Rightarrow> pyval" where
  "result_val evs i =
     (if i < length evs then (case ev_result (evs ! i) of Inr v \<Rightarrow> v | Inl e \<Rightarrow> VNone)
      else VNone)"

definition the_fields :: "pyval \<Rightarrow> (string \<times> pyval) list" where
  "the_fields v = (case fields_of v of Some fs \<Rightarrow> fs | None \<Rightarrow> [])"

definition the_items :: "pyval \<Rightarrow> pyval list" where
  "the_items v = (case items_of v of Some xs \<Rightarrow> xs | None \<Rightarrow> [])"

text \<open>
  \<open>answers L w evs w'\<close>: called in this order from the world \<open>w\<close>, the libraries give exactly
  the results logged in \<open>evs\<close> and leave the world \<open>w'\<close>.
\<close>

fun answers :: "'w lib \<Rightarrow> 'w \<Rightarrow> event list \<Rightarrow> 'w \<Rightarrow> bool" where
  "answers L w [] w' \<longleftrightarrow> w' = w"
| "answers L w (ev # evs) w' \<longleftrightarrow>
     fst (L (ev_grad ev) (ev_call ev) w) = ev_result ev \<and>
     answers L (snd (L (ev_grad ev) (ev_call ev) w)) evs w'"

text \<open>
  \<open>follows evs pat\<close>: the log \<open>evs\<close> is an initial part of the log \<open>pat\<close>, except that the
  result of its last call is left open (the call may have raised).
\<close>

fun follows :: "event list \<Rightarrow> event list \<Rightarrow> bool" where
  "follows [] pat \<longleftrightarrow> True"
| "follows (ev # evs) [] \<longleftrightarrow> False"
| "follows (ev # evs) (p # pat) \<longleftrightarrow>
     ev_grad ev = ev_grad p \<and> ev_call ev = ev_call p \<and>
     (evs = [] \<or> ev_result ev = ev_result p \<and> follows evs pat)"

text \<open>
  The kernel of the test run after each code cell, the cells run top to bottom from a fresh
  kernel.
\<close>

definition after_imports :: "nat state" where
  "after_imports = (kernel_start 0)\<lparr>globals := imports_globals (globals (kernel_start 0 :: nat state))\<rparr>"

definition after_clip1 :: "nat state" where
  "after_clip1 = after_imports
     \<lparr>globals := clip1_globals (globals after_imports) (VHandle 1) (VHandle 2) (VHandle 10)
        [(''pixel_values'', VHandle 20)] [(''logits_per_image'', VTensor [[3, 5]])]
        (VTensor [[3, 5]]),
      world := 7,
      trace := trace after_imports @ clip_loads (VHandle 1) (VHandle 2) @
        similarity_events (VHandle 2) (VHandle 1) ''cat.jpg'' (VHandle 10)
          [(''pixel_values'', VHandle 20)] [(''logits_per_image'', VTensor [[3, 5]])]
          (VTensor [[3, 5]]) (VTensor [[15999145 / 134217728, 7388661 / 8388608]]) VNone\<rparr>"

definition after_clip2 :: "nat state" where
  "after_clip2 = after_clip1
     \<lparr>globals := clip2_globals (globals after_clip1) (VHandle 11)
        [(''pixel_values'', VHandle 20)] [(''logits_per_image'', VTensor [[3, 5]])]
        (VTensor [[3, 5]]),
      world := 12,
      trace := trace after_clip1 @
        similarity_events (VHandle 2) (VHandle 1) ''cat_dog.jpg'' (VHandle 11)
          [(''pixel_values'', VHandle 20)] [(''logits_per_image'', VTensor [[3, 5]])]
          (VTensor [[3, 5]]) (VTensor [[15999145 / 134217728, 7388661 / 8388608]]) VNone\<rparr>"

definition after_blip :: "nat state" where
  "after_blip = after_clip2
     \<lparr>globals := blip_globals (globals after_clip2) (VStr ''orange and white''),
      world := 21,
      trace := trace after_clip2 @
        blip_cell_events (VHandle 3) (VHandle 4) (VHandle 10) (VHandle 12)
          [(''pixel_values'', VHandle 20)] [VList [VInt 101, VInt 4589, VInt 102]]
          (VStr ''orange and white'') [] VNone VNone\<rparr>"


section \<open>Compositional facts\<close>

lemma behaves_silent:
  fixes c :: "('a, 'w) comp"
  assumes "\<And>s. trace (snd (c s)) = trace s" "\<And>s. grad_enabled (snd (c s)) = grad_enabled s"
  shows "behaves Q c"
  unfolding behaves_def
proof (intro allI conjI)
  fix s :: "'w state"
  show "grad_enabled (snd (c s)) = grad_enabled s" by (rule assms)
  show "\<exists>evs. trace (snd (c s)) = trace s @ evs \<and>
           (\<forall>ev\<in>set evs. Q (grad_enabled s) (ev_grad ev) (meth (ev_call ev))) \<and>
           (\<forall>ev\<in>set evs. \<forall>e. ev_result ev = Inl e \<longrightarrow> fst (c s) = Inl e \<and> last evs = ev)"
    by (rule exI [of _ "[]"]) (simp add: assms)
qed

lemma behaves_then_do:
  assumes m: "behaves Q m" and f: "\<And>v. behaves Q (f v)"
  shows "behaves Q (then_do m f)"
  unfolding behaves_def
proof (intro allI)
  fix s
  obtain r1 s1 where ms: "m s = (r1, s1)" by (cases "m s")
  from m [unfolded behaves_def, rule_format, of s] ms
  obtain evs1 where g1: "grad_enabled s1 = grad_enabled s"
    and t1: "trace s1 = trace s @ evs1"
    and q1: "\<forall>ev\<in>set evs1. Q (grad_enabled s) (ev_grad ev) (meth (ev_call ev))"
    and p1: "\<forall>ev\<in>set evs1. \<forall>e. ev_result ev = Inl e \<longrightarrow> r1 = Inl e \<and> last evs1 = ev"
    by auto
  show "grad_enabled (snd (then_do m f s)) = grad_enabled s \<and>
        (\<exists>evs. trace (snd (then_do m f s)) = trace s @ evs \<and>
           (\<forall>ev\<in>set evs. Q (grad_enabled s) (ev_grad ev) (meth (ev_call ev))) \<and>
           (\<forall>ev\<in>set evs. \<forall>e. ev_result ev = Inl e \<longrightarrow>
              fst (then_do m f s) = Inl e \<and> last evs = ev))"
  proof (cases r1)
    case (Inl e)
    then have "then_do m f s = (Inl e, s1)" by (simp add: then_do_def ms)
    with g1 t1 q1 p1 Inl show ?thesis by auto
  next
    case (Inr v)
    obtain r2 s2 where fs: "f v s1 = (r2, s2)" by (cases "f v s1")
    from f [of v, unfolded behaves_def, rule_format, of s1] fs
    obtain evs2 where g2: "grad_enabled s2 = grad_enabled s1"
      and t2: "trace s2 = trace s1 @ evs2"
      and q2: "\<forall>ev\<in>set evs2. Q (grad_enabled s1) (ev_grad ev) (meth (ev_call ev))"
      and p2: "\<forall>ev\<in>set evs2. \<forall>e. ev_result ev = Inl e \<longrightarrow> r2 = Inl e \<and> last evs2 = ev"
      by auto
    have run: "then_do m f s = (r2, s2)" by (simp add: then_do_def ms Inr fs)
    have ok1: "\<forall>ev\<in>set evs1. \<forall>e. ev_result ev \<noteq> Inl e" using p1 Inr by auto
    have "trace s2 = trace s @ (evs1 @ evs2)" using t1 t2 by simp
    moreover have "\<forall>ev\<in>set (evs1 @ evs2). Q (grad_enabled s) (ev_grad ev) (meth (ev_call ev))"
      using q1 q2 g1 by auto
    moreover have "\<forall>ev\<in>set (evs1 @ evs2). \<forall>e. ev_result ev = Inl e \<longrightarrow>
        r2 = Inl e \<and> last (evs1 @ evs2) = ev"
    proof (intro ballI allI impI)
      fix ev e assume mem: "ev \<in> set (evs1 @ evs2)" and res: "ev_result ev = Inl e"
      from mem ok1 res have in2: "ev \<in> set evs2" by auto
      with p2 res have "r2 = Inl e" "last evs2 = ev" by auto
      moreover from in2 have "evs2 \<noteq> []" by auto
      ultimately show "r2 = Inl e \<and> last (evs1 @ evs2) = ev" by simp
    qed
    ultimately show ?thesis using run g1 g2 by (intro conjI exI [of _ "evs1 @ evs2"]) simp_all
  qed
qed

lemma behaves_extern:
  fixes L :: "'w lib"
  assumes "\<And>g. Q g g (meth c)"
  shows "behaves Q (extern L c)"
  unfolding behaves_def
proof (intro allI conjI)
  fix s :: "'w state"
  obtain r w' where l: "L (grad_enabled s) c (world s) = (r, w')"
    by (cases "L (grad_enabled s) c (world s)")
  show "grad_enabled (snd (extern L c s)) = grad_enabled s" by (simp add: extern_def l)
  show "\<exists>evs. trace (snd (extern L c s)) = trace s @ evs \<and>
           (\<forall>ev\<in>set evs. Q (grad_enabled s) (ev_grad ev) (meth (ev_call ev))) \<and>
           (\<forall>ev\<in>set evs. \<forall>e. ev_result ev = Inl e \<longrightarrow>
              fst (extern L c s) = Inl e \<and> last evs = ev)"
    by (rule exI [of _ "[Event (grad_enabled s) c r]"]) (simp add: extern_def l assms)
qed

lemma behaves_weaken:
  "behaves Q c \<Longrightarrow> (\<And>g eg m. Q g eg m \<Longrightarrow> Q' g eg m) \<Longrightarrow> behaves Q' c"
  unfolding behaves_def by (elim all_forward) blast

lemma behaves_lit: "behaves Q (lit v)"
  by (rule behaves_silent) (simp_all add: lit_def)

lemma behaves_raise: "behaves Q (raise e)"
  by (rule behaves_silent) (simp_all add: raise_def)

lemma behaves_name: "behaves Q (name x)"
  by (rule behaves_silent) (simp_all add: name_def split: option.splits)

lemma behaves_local_name: "behaves Q (local_name x)"
  by (rule behaves_silent) (simp_all add: local_name_def split: option.splits)

lemma behaves_bind_global: "behaves Q (bind_global x v)"
  by (rule behaves_silent) (simp_all add: bind_global_def)

lemma behaves_bind_local: "behaves Q (bind_local x v)"
  by (rule behaves_silent) (simp_all add: bind_local_def)

lemma behaves_eval_all: "(\<And>e. e \<in> set es \<Longrightarrow> behaves Q e) \<Longrightarrow> behaves Q (eval_all es)"
  by (induction es) (auto intro!: behaves_then_do behaves_lit)

lemma behaves_eval_kwargs:
  "(\<And>p. p \<in> set es \<Longrightarrow> behaves Q (snd p)) \<Longrightarrow> behaves Q (eval_kwargs es)"
proof (induction es)
  case Nil
  show ?case by (simp add: behaves_lit)
next
  case (Cons p es)
  obtain k e where p: "p = (k, e)" by (cases p)
  from Cons.prems [of p] p have e: "behaves Q e" by simp
  from Cons have rest: "behaves Q (eval_kwargs es)" by simp
  show ?case unfolding p eval_kwargs.simps
    by (intro behaves_then_do e rest behaves_lit)
qed

lemma behaves_invoke: "(\<And>g. Q g g m) \<Longrightarrow> behaves Q (invoke L r m vs kvs)"
  by (simp add: invoke_def behaves_extern)

lemma behaves_call_method:
  "behaves Q obj \<Longrightarrow> (\<And>e. e \<in> set as \<Longrightarrow> behaves Q e) \<Longrightarrow>
   (\<And>p. p \<in> set kws \<Longrightarrow> behaves Q (snd p)) \<Longrightarrow> (\<And>g. Q g g m) \<Longrightarrow>
   behaves Q (call_method L obj m as kws)"
  unfolding call_method_def
  by (intro behaves_then_do behaves_eval_all behaves_eval_kwargs behaves_invoke) auto

lemma behaves_call_fn:
  "behaves Q f \<Longrightarrow> (\<And>e. e \<in> set as \<Longrightarrow> behaves Q e) \<Longrightarrow>
   (\<And>p. p \<in> set kws \<Longrightarrow> behaves Q (snd p)) \<Longrightarrow> (\<And>g. Q g g ''__call__'') \<Longrightarrow>
   behaves Q (call_fn L f as kws)"
  unfolding call_fn_def by (rule behaves_call_method)

lemma behaves_call_method_unpack:
  "behaves Q obj \<Longrightarrow> behaves Q d \<Longrightarrow> (\<And>g. Q g g m) \<Longrightarrow>
   behaves Q (call_method_unpack L obj m d)"
  unfolding call_method_unpack_def
  by (intro behaves_then_do) (auto intro!: behaves_invoke behaves_raise split: option.splits)

lemma behaves_call_fn_unpack:
  "behaves Q f \<Longrightarrow> behaves Q d \<Longrightarrow> (\<And>g. Q g g ''__call__'') \<Longrightarrow>
   behaves Q (call_fn_unpack L f d)"
  unfolding call_fn_unpack_def by (rule behaves_call_method_unpack)

lemma behaves_attr: "behaves Q e \<Longrightarrow> behaves Q (attr e a)"
  unfolding attr_def
  by (intro behaves_then_do) (auto intro!: behaves_lit behaves_raise split: option.splits)

lemma behaves_subscript: "behaves Q e \<Longrightarrow> behaves Q (subscript e i)"
  unfolding subscript_def
  by (intro behaves_then_do)
    (auto simp: Let_def intro!: behaves_lit behaves_raise split: option.splits)

lemma behaves_format_value: "(\<And>g. Q g g ''__format__'') \<Longrightarrow> behaves Q (format_value L v)"
  unfolding format_value_def
  by (auto intro!: behaves_then_do behaves_extern behaves_lit behaves_raise split: option.splits)

lemma behaves_fstring:
  "behaves Q e \<Longrightarrow> (\<And>g. Q g g ''__format__'') \<Longrightarrow> behaves Q (fstring L pre e)"
  unfolding fstring_def
  by (intro behaves_then_do behaves_format_value behaves_lit) auto

lemma behaves_assign: "behaves Q e \<Longrightarrow> behaves Q (assign x e)"
  unfolding assign_def by (intro behaves_then_do behaves_bind_global) auto

lemma behaves_assign_local: "behaves Q e \<Longrightarrow> behaves Q (assign_local x e)"
  unfolding assign_local_def by (intro behaves_then_do behaves_bind_local) auto

lemma behaves_expr_stmt: "behaves Q e \<Longrightarrow> behaves Q (expr_stmt e)"
  unfolding expr_stmt_def by (intro behaves_then_do behaves_lit) auto

lemma behaves_block: "(\<And>c. c \<in> set cs \<Longrightarrow> behaves Q c) \<Longrightarrow> behaves Q (block cs)"
  by (induction cs) (auto intro!: behaves_then_do behaves_lit)

lemma behaves_import:
  "behaves Q (import_as m x)" "behaves Q (import_module m)" "behaves Q (import_from m xs)"
  "behaves Q (def_fun f)"
  unfolding import_as_def import_module_def import_from_def def_fun_def
  by (auto intro!: behaves_block behaves_bind_global)

lemma behaves_if_main: "behaves Q body \<Longrightarrow> behaves Q (if_main body)"
  unfolding if_main_def by (intro behaves_then_do behaves_name) (auto intro!: behaves_lit)

lemma behaves_in_frame:
  fixes body :: "('a, 'w) comp"
  assumes "behaves Q body"
  shows "behaves Q (in_frame ps body)"
  unfolding behaves_def
proof (intro allI)
  fix s :: "'w state"
  from assms [unfolded behaves_def, rule_format, of "s\<lparr>locals := map_of ps\<rparr>"]
  show "grad_enabled (snd (in_frame ps body s)) = grad_enabled s \<and>
        (\<exists>evs. trace (snd (in_frame ps body s)) = trace s @ evs \<and>
           (\<forall>ev\<in>set evs. Q (grad_enabled s) (ev_grad ev) (meth (ev_call ev))) \<and>
           (\<forall>ev\<in>set evs. \<forall>e. ev_result ev = Inl e \<longrightarrow>
              fst (in_frame ps body s) = Inl e \<and> last evs = ev))"
    by (simp add: in_frame_def case_prod_beta)
qed

lemma behaves_no_grad_scope:
  fixes body :: "('a, 'w) comp"
  assumes body: "behaves Q' body" and weaken: "\<And>g eg m. Q' False eg m \<Longrightarrow> Q g eg m"
  shows "behaves Q (no_grad_scope body)"
  unfolding behaves_def
proof (intro allI)
  fix s :: "'w state"
  let ?s0 = "s\<lparr>grad_enabled := False\<rparr>"
  from body [unfolded behaves_def, rule_format, of ?s0]
  obtain evs where t: "trace (snd (body ?s0)) = trace s @ evs"
    and q: "\<forall>ev\<in>set evs. Q' False (ev_grad ev) (meth (ev_call ev))"
    and p: "\<forall>ev\<in>set evs. \<forall>e. ev_result ev = Inl e \<longrightarrow> fst (body ?s0) = Inl e \<and> last evs = ev"
    by auto
  from q weaken have "\<forall>ev\<in>set evs. Q (grad_enabled s) (ev_grad ev) (meth (ev_call ev))"
    by blast
  with t p show "grad_enabled (snd (no_grad_scope body s)) = grad_enabled s \<and>
      (\<exists>evs. trace (snd (no_grad_scope body s)) = trace s @ evs \<and>
         (\<forall>ev\<in>set evs. Q (grad_enabled s) (ev_grad ev) (meth (ev_call ev))) \<and>
         (\<forall>ev\<in>set evs. \<forall>e. ev_result ev = Inl e \<longrightarrow>
            fst (no_grad_scope body s) = Inl e \<and> last evs = ev))"
    by (auto simp: no_grad_scope_def case_prod_beta)
qed

lemma behaves_with_no_grad:
  assumes "behaves Q' body" and "\<And>g eg m. Q' False eg m \<Longrightarrow> Q g eg m"
  shows "behaves Q (with_no_grad body)"
  unfolding with_no_grad_def
  by (intro behaves_then_do behaves_name)
    (auto intro!: behaves_raise behaves_no_grad_scope [OF assms])

lemmas behaves_intros = behaves_then_do behaves_lit behaves_raise behaves_name behaves_local_name
  behaves_call_method behaves_call_fn behaves_call_method_unpack behaves_call_fn_unpack
  behaves_attr behaves_subscript behaves_fstring behaves_assign behaves_assign_local
  behaves_expr_stmt behaves_import behaves_block behaves_if_main behaves_in_frame

lemma behaves_cell_imports: "behaves Q (cell_imports L)"
  unfolding cell_imports_def
  by (intro behaves_block) (auto intro!: behaves_intros)

lemma behaves_cell_clip1: "behaves clip_calls (cell_clip1 L)"
  unfolding cell_clip1_def
  by (intro behaves_block) (auto intro!: behaves_intros simp: clip_calls_def)

lemma behaves_cell_clip2: "behaves clip2_calls (cell_clip2 L)"
  unfolding cell_clip2_def
  by (intro behaves_block) (auto intro!: behaves_intros simp: clip2_calls_def)

lemma behaves_perform_blip_qa: "behaves blip_calls (perform_blip_qa L image_path question)"
  unfolding perform_blip_qa_def
  apply (intro behaves_in_frame behaves_then_do behaves_block behaves_local_name)
  apply (auto intro!: behaves_intros
      behaves_with_no_grad [where Q' = "\<lambda>g eg m. eg = g \<and> m = ''generate''"]
      simp: blip_calls_def)
  done

lemma behaves_cell_blip: "behaves blip_calls (cell_blip L)"
  unfolding cell_blip_def call_perform_blip_qa_def
  apply (intro behaves_block)
  apply (auto intro!: behaves_intros behaves_perform_blip_qa behaves_extern simp: blip_calls_def)
  done

lemma behaves_run_all: "behaves (\<lambda>g eg m. True) (run_all L)"
proof -
  have a: "behaves (\<lambda>g eg m. True) (cell_clip1 L)"
    by (rule behaves_weaken [OF behaves_cell_clip1]) simp
  have b: "behaves (\<lambda>g eg m. True) (cell_clip2 L)"
    by (rule behaves_weaken [OF behaves_cell_clip2]) simp
  have c: "behaves (\<lambda>g eg m. True) (cell_blip L)"
    by (rule behaves_weaken [OF behaves_cell_blip]) simp
  show ?thesis
    unfolding run_all_def notebook_def
    by simp (intro behaves_then_do behaves_lit behaves_cell_imports a b c)
qed

lemma behaves_propagates: "behaves Q c \<Longrightarrow> propagates c"
  unfolding behaves_def propagates_def by (elim all_forward) blast

section \<open>Complete runs\<close>

lemma proj_iff [simp]:
  "fields_of v = Some items \<longleftrightarrow> v = VStruct items"
  "items_of v = Some xs \<longleftrightarrow> v = VList xs"
  "str_of v = Some x \<longleftrightarrow> v = VStr x"
  by (cases v; simp)+

lemma state_eqI:
  fixes s s' :: "'w state"
  shows "globals s = globals s' \<Longrightarrow> locals s = locals s' \<Longrightarrow>
    grad_enabled s = grad_enabled s' \<Longrightarrow> world s = world s' \<Longrightarrow> trace s = trace s' \<Longrightarrow> s = s'"
  by (cases s; cases s'; simp)

lemma ok_then_do:
  "then_do m f s = (Inr v, s') \<longleftrightarrow> (\<exists>x s1. m s = (Inr x, s1) \<and> f x s1 = (Inr v, s'))"
  by (auto simp: then_do_def split: prod.splits sum.splits)

lemma ok_prims:
  "lit a s = (Inr v, s') \<longleftrightarrow> v = a \<and> s' = s"
  "raise e s = (Inr v, s') \<longleftrightarrow> False"
  "name n s = (Inr b, s') \<longleftrightarrow>
     s' = s \<and> (globals s n = Some b \<or> globals s n = None \<and> builtins n = Some b)"
  "local_name n s = (Inr b, s') \<longleftrightarrow> s' = s \<and> locals s n = Some b"
  by (auto simp: lit_def raise_def name_def local_name_def split: option.splits)

lemma ok_extern:
  "extern L c s = (Inr b, s') \<longleftrightarrow>
     L (grad_enabled s) c (world s) = (Inr b, world s') \<and>
     globals s' = globals s \<and> locals s' = locals s \<and> grad_enabled s' = grad_enabled s \<and>
     trace s' = trace s @ [Event (grad_enabled s) c (Inr b)]"
  by (auto simp: extern_def split: prod.splits intro: state_eqI)

lemma ok_bind_global:
  "bind_global x v s = (Inr r, s') \<longleftrightarrow>
     r = VNone \<and> globals s' = (globals s)(x \<mapsto> v) \<and> locals s' = locals s \<and>
     grad_enabled s' = grad_enabled s \<and> world s' = world s \<and> trace s' = trace s"
  by (auto simp: bind_global_def intro: state_eqI)

lemma ok_bind_local:
  "bind_local x v s = (Inr r, s') \<longleftrightarrow>
     r = VNone \<and> locals s' = (locals s)(x \<mapsto> v) \<and> globals s' = globals s \<and>
     grad_enabled s' = grad_enabled s \<and> world s' = world s \<and> trace s' = trace s"
  by (auto simp: bind_local_def intro: state_eqI)

lemma ok_in_frame:
  "in_frame ps body s = (Inr v, s') \<longleftrightarrow>
     (\<exists>s1. body (s\<lparr>locals := map_of ps\<rparr>) = (Inr v, s1) \<and>
        globals s' = globals s1 \<and> locals s' = locals s \<and> grad_enabled s' = grad_enabled s1 \<and>
        world s' = world s1 \<and> trace s' = trace s1)"
  by (auto simp: in_frame_def split: prod.splits intro: state_eqI)

lemma ok_no_grad_scope:
  "no_grad_scope body s = (Inr v, s') \<longleftrightarrow>
     (\<exists>s1. body (s\<lparr>grad_enabled := False\<rparr>) = (Inr v, s1) \<and>
        globals s' = globals s1 \<and> locals s' = locals s1 \<and> grad_enabled s' = grad_enabled s \<and>
        world s' = world s1 \<and> trace s' = trace s1)"
  by (auto simp: no_grad_scope_def split: prod.splits intro: state_eqI)

lemma ok_case:
  "(case y of None \<Rightarrow> n | Some c \<Rightarrow> sm c) s = (Inr v, s') \<longleftrightarrow>
      (y = None \<and> n s = (Inr v, s')) \<or> (\<exists>c. y = Some c \<and> sm c s = (Inr v, s'))"
  "(if c then f else g) s = (Inr v, s') \<longleftrightarrow>
      (c \<and> f s = (Inr v, s')) \<or> (\<not> c \<and> g s = (Inr v, s'))"
  by (auto split: option.splits)

lemmas ok_rules = ok_then_do ok_prims ok_extern ok_bind_global ok_bind_local ok_case
  ok_in_frame ok_no_grad_scope

lemmas comb_defs = invoke_def
  call_method_def call_fn_def call_method_unpack_def call_fn_unpack_def attr_def
  subscript_def format_value_def fstring_def assign_def assign_local_def expr_stmt_def
  import_as_def import_module_def import_from_def def_fun_def if_main_def with_no_grad_def
  builtins_def

lemma blip_qa_returns:
  assumes "blip_imports s" "perform_blip_qa L p q s = (Inr a, s')"
  shows "new_events s s' =
       blip_qa_events (grad_enabled s) p q
         (result_val (new_events s s') 0) (result_val (new_events s s') 1)
         (result_val (new_events s s') 2) (result_val (new_events s s') 3)
         (the_fields (result_val (new_events s s') 4))
         (the_items (result_val (new_events s s') 5)) a \<and>
     the_items (result_val (new_events s s') 5) \<noteq> [] \<and>
     answers L (world s) (new_events s s') (world s') \<and>
     trace s' = trace s @ new_events s s' \<and>
     globals s' = globals s \<and> locals s' = locals s \<and> grad_enabled s' = grad_enabled s"
  using assms
  unfolding blip_imports_def perform_blip_qa_def
  apply (clarsimp simp add: ok_rules comb_defs Let_def)
  apply (simp add: new_events_def blip_qa_events_def result_val_def the_fields_def
      the_items_def hd_conv_nth)
  done

lemmas run_defs = then_do_def lit_def raise_def name_def local_name_def extern_def invoke_def
  call_method_def call_fn_def call_method_unpack_def call_fn_unpack_def attr_def
  subscript_def format_value_def fstring_def assign_def assign_local_def expr_stmt_def
  bind_global_def bind_local_def no_grad_scope_def
  import_as_def import_module_def import_from_def def_fun_def if_main_def with_no_grad_def
  in_frame_def builtins_def Let_def case_prod_beta

lemma blip_qa_runs:
  assumes imp: "blip_imports s" and ne: "seqs \<noteq> []"
    and ans: "answers L (world s)
       (blip_qa_events (grad_enabled s) p q proc model img rgb inputs seqs a) w'"
  shows "perform_blip_qa L p q s =
     (Inr a, s\<lparr>world := w',
        trace := trace s @ blip_qa_events (grad_enabled s) p q proc model img rgb inputs seqs a\<rparr>)"
  using assms
  unfolding perform_blip_qa_def blip_imports_def blip_qa_events_def
  by (cases seqs) (auto simp: run_defs intro!: state_eqI)



lemma clip1_runs:
  assumes "kernel_ok s" "map_of outs ''logits_per_image'' = Some logits"
    "answers L (world s)
       (clip_loads model proc @
        similarity_events proc model ''cat.jpg'' img inputs outs logits shown r) w'"
  shows "cell_clip1 L s =
     (Inr VNone,
      s\<lparr>globals := clip1_globals (globals s) model proc img inputs outs logits, world := w',
        trace := trace s @ clip_loads model proc @
          similarity_events proc model ''cat.jpg'' img inputs outs logits shown r\<rparr>)"
  using assms
  unfolding kernel_ok_def cell_clip1_def clip_loads_def similarity_events_def clip1_globals_def
    clip_texts_def
  by (auto simp: run_defs intro!: state_eqI)

lemma clip2_runs:
  assumes "kernel_ok s" "globals s ''Image'' = Some (VName ''PIL.Image'')"
    "globals s ''model'' = Some model" "globals s ''processor'' = Some proc"
    "map_of outs ''logits_per_image'' = Some logits"
    "answers L (world s)
       (similarity_events proc model ''cat_dog.jpg'' img inputs outs logits shown r) w'"
  shows "cell_clip2 L s =
     (Inr VNone,
      s\<lparr>globals := clip2_globals (globals s) img inputs outs logits, world := w',
        trace := trace s @
          similarity_events proc model ''cat_dog.jpg'' img inputs outs logits shown r\<rparr>)"
  using assms
  unfolding kernel_ok_def cell_clip2_def similarity_events_def clip2_globals_def clip_texts_def
  by (auto simp: run_defs intro!: state_eqI)

lemma imports_runs:
  "cell_imports L s = (Inr VNone, s\<lparr>globals := imports_globals (globals s)\<rparr>)"
  unfolding cell_imports_def imports_globals_def
  by (auto simp: run_defs intro!: state_eqI)

lemma answers_append:
  "answers L w (evs1 @ evs2) w' \<longleftrightarrow> (\<exists>w1. answers L w evs1 w1 \<and> answers L w1 evs2 w')"
  by (induction evs1 arbitrary: w) auto

lemma blip_qa_returns_answers:
  assumes "blip_imports s" "perform_blip_qa L p q s = (Inr a, s')"
  shows "\<exists>proc model img rgb inputs seqs.
     trace s' = trace s @ blip_qa_events (grad_enabled s) p q proc model img rgb inputs seqs a \<and>
     answers L (world s)
       (blip_qa_events (grad_enabled s) p q proc model img rgb inputs seqs a) (world s') \<and>
     seqs \<noteq> [] \<and> globals s' = globals s \<and> locals s' = locals s \<and>
     grad_enabled s' = grad_enabled s"
  using blip_qa_returns [OF assms] by metis

lemma cell_blip_completes:
  assumes "kernel_ok s" "cell_blip L s = (Inr v, s')"
  shows "\<exists>proc model img rgb inputs seqs answer txt r1 r2.
     v = VNone \<and> seqs \<noteq> [] \<and>
     answers L (world s)
       (blip_cell_events proc model img rgb inputs seqs answer txt r1 r2) (world s') \<and>
     trace s' = trace s @ blip_cell_events proc model img rgb inputs seqs answer txt r1 r2 \<and>
     globals s' = blip_globals (globals s) answer \<and>
     locals s' = locals s \<and> grad_enabled s'"
  using assms
  unfolding kernel_ok_def cell_blip_def call_perform_blip_qa_def
  apply (clarsimp simp add: ok_rules comb_defs Let_def)
  apply (drule blip_qa_returns_answers [rotated])
   apply (simp add: blip_imports_def)
  apply (elim exE conjE)
  apply (clarsimp)
  apply ((elim disjE conjE exE)?)
  apply (simp_all add: blip_cell_events_def format_events_def text_of_def blip_globals_def
      blip_qa_events_def)
  done

section \<open>Every run\<close>

text \<open>The same rules for a run with any result, an exception or a value.\<close>

lemma any_then_do:
  "then_do m f s = (r, s') \<longleftrightarrow>
     (\<exists>e. r = Inl e \<and> m s = (Inl e, s')) \<or> (\<exists>x s1. m s = (Inr x, s1) \<and> f x s1 = (r, s'))"
  by (auto simp: then_do_def split: prod.splits sum.splits)

lemma any_prims:
  "lit a s = (ra, s') \<longleftrightarrow> ra = Inr a \<and> s' = s"
  "raise e s = (ra, s') \<longleftrightarrow> ra = Inl e \<and> s' = s"
  "name n s = (rb, s') \<longleftrightarrow> s' = s \<and>
     (globals s n = Some (projr rb) \<and> rb = Inr (projr rb) \<or>
      globals s n = None \<and> builtins n = Some (projr rb) \<and> rb = Inr (projr rb) \<or>
      globals s n = None \<and> builtins n = None \<and> rb = Inl (NameError n))"
  "local_name n s = (rb, s') \<longleftrightarrow> s' = s \<and>
     (locals s n = Some (projr rb) \<and> rb = Inr (projr rb) \<or>
      locals s n = None \<and> rb = Inl (UnboundLocalError n))"
  by (auto simp: lit_def raise_def name_def local_name_def split: option.splits)

lemma any_extern:
  "extern L c s = (rb, s') \<longleftrightarrow>
     L (grad_enabled s) c (world s) = (rb, world s') \<and>
     globals s' = globals s \<and> locals s' = locals s \<and> grad_enabled s' = grad_enabled s \<and>
     trace s' = trace s @ [Event (grad_enabled s) c rb]"
  by (auto simp: extern_def split: prod.splits intro: state_eqI)

lemma any_bind_local:
  "bind_local x v s = (rb, s') \<longleftrightarrow>
     rb = Inr VNone \<and> locals s' = (locals s)(x \<mapsto> v) \<and> globals s' = globals s \<and>
     grad_enabled s' = grad_enabled s \<and> world s' = world s \<and> trace s' = trace s"
  by (auto simp: bind_local_def intro: state_eqI)

lemma any_in_frame:
  "in_frame ps body s = (r, s') \<longleftrightarrow>
     (\<exists>s1. body (s\<lparr>locals := map_of ps\<rparr>) = (r, s1) \<and>
        globals s' = globals s1 \<and> locals s' = locals s \<and> grad_enabled s' = grad_enabled s1 \<and>
        world s' = world s1 \<and> trace s' = trace s1)"
  by (auto simp: in_frame_def split: prod.splits intro: state_eqI)

lemma any_no_grad_scope:
  "no_grad_scope body s = (r, s') \<longleftrightarrow>
     (\<exists>s1. body (s\<lparr>grad_enabled := False\<rparr>) = (r, s1) \<and>
        globals s' = globals s1 \<and> locals s' = locals s1 \<and> grad_enabled s' = grad_enabled s \<and>
        world s' = world s1 \<and> trace s' = trace s1)"
  by (auto simp: no_grad_scope_def split: prod.splits intro: state_eqI)

lemma any_case:
  "(case y of None \<Rightarrow> n | Some c \<Rightarrow> sm c) s = (r, s') \<longleftrightarrow>
      (y = None \<and> n s = (r, s')) \<or> (\<exists>c. y = Some c \<and> sm c s = (r, s'))"
  "(if c then f else g) s = (r, s') \<longleftrightarrow> (c \<and> f s = (r, s')) \<or> (\<not> c \<and> g s = (r, s'))"
  by (auto split: option.splits)

lemmas any_rules = any_then_do any_prims any_extern any_bind_local any_in_frame
  any_no_grad_scope any_case

lemma blip_qa_any:
  assumes "blip_imports s" "perform_blip_qa L p q s = (r, s')"
  shows "trace s' = trace s @ new_events s s' \<and>
     follows (new_events s s')
       (blip_qa_events (grad_enabled s) p q
         (result_val (new_events s s') 0) (result_val (new_events s s') 1)
         (result_val (new_events s s') 2) (result_val (new_events s s') 3)
         (the_fields (result_val (new_events s s') 4))
         (the_items (result_val (new_events s s') 5))
         (result_val (new_events s s') 6)) \<and>
     globals s' = globals s \<and> locals s' = locals s \<and> grad_enabled s' = grad_enabled s"
  using assms
  unfolding blip_imports_def perform_blip_qa_def
  apply (clarsimp simp add: any_rules comb_defs Let_def)
  apply (elim disjE exE conjE)
  apply (simp_all add: new_events_def blip_qa_events_def result_val_def the_fields_def
      the_items_def hd_conv_nth)
  done

section \<open>Test runs\<close>

lemmas eval_defs = then_do_def lit_def raise_def name_def local_name_def extern_def invoke_def
  call_method_def call_fn_def call_method_unpack_def call_fn_unpack_def attr_def
  subscript_def format_value_def fstring_def assign_def assign_local_def expr_stmt_def
  bind_global_def bind_local_def no_grad_scope_def
  import_as_def import_module_def import_from_def def_fun_def if_main_def with_no_grad_def
  in_frame_def builtins_def demo_lib_def Let_def

lemma demo_missing_file:
  "trace (snd (perform_blip_qa demo_lib (VStr ''missing.jpg'') (VStr ''What color is the cat?'')
       blip_kernel)) =
     [Event True (Call (VName ''transformers.BlipProcessor'') ''from_pretrained''
        [VStr ''Salesforce/blip-vqa-base''] []) (Inr (VHandle 3)),
      Event True (Call (VName ''transformers.BlipForQuestionAnswering'') ''from_pretrained''
        [VStr ''Salesforce/blip-vqa-base''] []) (Inr (VHandle 4)),
      Event True (Call (VName ''PIL.Image'') ''open'' [VStr ''missing.jpg''] [])
        (Inl (LibraryError ''FileNotFoundError''))]"
  unfolding perform_blip_qa_def blip_kernel_def by (simp add: eval_defs)

lemma kernel_ok_start: "kernel_ok (kernel_start w)"
  by (simp add: kernel_ok_def kernel_start_def)

lemma kernel_ok_imports: "kernel_ok s \<Longrightarrow> kernel_ok (s\<lparr>globals := imports_globals (globals s)\<rparr>)"
  by (simp add: kernel_ok_def imports_globals_def)

lemma kernel_ok_clip1:
  "kernel_ok s \<Longrightarrow>
   kernel_ok (s\<lparr>globals := clip1_globals (globals s) model proc img inputs outs logits,
     world := w, trace := t\<rparr>)"
  by (simp add: kernel_ok_def clip1_globals_def)

lemma kernel_ok_clip2:
  "kernel_ok s \<Longrightarrow>
   kernel_ok (s\<lparr>globals := clip2_globals (globals s) img inputs outs logits,
     world := w, trace := t\<rparr>)"
  by (simp add: kernel_ok_def clip2_globals_def)

lemma kernel_ok_blip:
  "kernel_ok s \<Longrightarrow>
   kernel_ok (s\<lparr>globals := blip_globals (globals s) answer, world := w, trace := t\<rparr>)"
  by (simp add: kernel_ok_def blip_globals_def)

lemma demo_kernels:
  "kernel_ok after_imports" "kernel_ok after_clip1" "kernel_ok after_clip2" "kernel_ok after_blip"
  unfolding after_blip_def after_clip2_def after_clip1_def after_imports_def
  by (intro kernel_ok_blip kernel_ok_clip2 kernel_ok_clip1 kernel_ok_imports kernel_ok_start)+

lemma demo_imports: "cell_imports demo_lib (kernel_start 0) = (Inr VNone, after_imports)"
  unfolding after_imports_def by (rule imports_runs)

lemma demo_worlds:
  "world after_imports = 0" "world after_clip1 = 7" "world after_clip2 = 12"
  "world after_blip = 21"
  by (simp_all add: after_blip_def after_clip2_def after_clip1_def after_imports_def
      kernel_start_def)

lemma demo_names:
  "globals after_imports ''Image'' = Some (VName ''PIL.Image'')"
  "globals after_imports ''processor'' = None"
  "globals after_imports ''model'' = None"
  "globals after_clip1 ''Image'' = Some (VName ''PIL.Image'')"
  "globals after_clip1 ''model'' = Some (VHandle 1)"
  "globals after_clip1 ''processor'' = Some (VHandle 2)"
  by (simp_all add: after_clip1_def after_imports_def kernel_start_def imports_globals_def
      clip1_globals_def)

lemma demo_clip1: "cell_clip1 demo_lib after_imports = (Inr VNone, after_clip1)"
  unfolding after_clip1_def
  by (rule clip1_runs [OF demo_kernels(1)])
    (simp_all add: demo_worlds clip_loads_def similarity_events_def demo_lib_def clip_texts_def)

lemma demo_clip2: "cell_clip2 demo_lib after_clip1 = (Inr VNone, after_clip2)"
  unfolding after_clip2_def
  by (rule clip2_runs [OF demo_kernels(2) demo_names(4,5,6)])
    (simp_all add: demo_worlds similarity_events_def demo_lib_def clip_texts_def)

lemma demo_clip2_alone:
  "fst (cell_clip2 demo_lib after_imports) = Inl (NameError ''processor'')"
  unfolding after_imports_def cell_clip2_def kernel_start_def imports_globals_def
  by (simp add: eval_defs)

lemma demo_blip: "cell_blip demo_lib after_clip2 = (Inr VNone, after_blip)"
  unfolding after_blip_def after_clip2_def after_clip1_def after_imports_def kernel_start_def
    cell_blip_def call_perform_blip_qa_def perform_blip_qa_def
    blip_cell_events_def blip_qa_events_def format_events_def text_of_def blip_globals_def
    clip2_globals_def clip1_globals_def imports_globals_def clip_loads_def similarity_events_def
    clip_texts_def
  by (simp add: eval_defs)

lemma demo_run_all: "run_all demo_lib (kernel_start 0) = (Inr VNone, after_blip)"
  unfolding run_all_def notebook_def
  by (simp add: then_do_def lit_def demo_imports demo_clip1 demo_clip2 demo_blip)

section \<open>Exceptions of the libraries\<close>

text \<open>
  Claim C3. No cell and no function of the notebook handles an exception: when a call into
  a library raises (a missing image file, a failed download, an input the model rejects),
  the cell or function stops at that call and its own result is that same exception,
  unchanged. This holds for the setup cell, both CLIP cells, \<^verbatim>\<open>perform_blip_qa\<close>, the BLIP
  cell and the whole notebook run top to bottom, from every state and for every behaviour
  of the libraries.
\<close>

theorem library_exceptions_propagate:
  "propagates (cell_imports L) \<and> propagates (cell_clip1 L) \<and> propagates (cell_clip2 L) \<and>
   propagates (perform_blip_qa L image_path question) \<and> propagates (cell_blip L) \<and>
   propagates (run_all L)"
  by (intro conjI behaves_propagates [OF behaves_cell_imports [of "\<lambda>g eg m. True"]]
      behaves_propagates [OF behaves_cell_clip1] behaves_propagates [OF behaves_cell_clip2]
      behaves_propagates [OF behaves_perform_blip_qa] behaves_propagates [OF behaves_cell_blip]
      behaves_propagates [OF behaves_run_all])

theorem library_exceptions_propagate_witness:
  "ev_result (last (trace (snd (perform_blip_qa demo_lib (VStr ''missing.jpg'')
       (VStr ''What color is the cat?'') blip_kernel)))) =
     Inl (LibraryError ''FileNotFoundError'') \<and>
   fst (perform_blip_qa demo_lib (VStr ''missing.jpg'') (VStr ''What color is the cat?'')
       blip_kernel) = Inl (LibraryError ''FileNotFoundError'')"
proof -
  let ?run = "perform_blip_qa demo_lib (VStr ''missing.jpg'') (VStr ''What color is the cat?'')
    blip_kernel"
  note tr = demo_missing_file
  have "propagates (perform_blip_qa demo_lib (VStr ''missing.jpg'')
      (VStr ''What color is the cat?''))"
    using library_exceptions_propagate
      [of demo_lib "VStr ''missing.jpg''" "VStr ''What color is the cat?''"]
    by simp
  then obtain evs where evs: "trace (snd ?run) = trace blip_kernel @ evs"
    and fails: "\<forall>ev\<in>set evs. \<forall>e. ev_result ev = Inl e \<longrightarrow> fst ?run = Inl e \<and> last evs = ev"
    unfolding propagates_def by blast
  from evs have eq: "evs = trace (snd ?run)" by (simp add: blip_kernel_def)
  have last: "ev_result (last (trace (snd ?run))) = Inl (LibraryError ''FileNotFoundError'')"
    by (simp add: tr)
  have "last (trace (snd ?run)) \<in> set evs" unfolding eq by (simp add: tr)
  with fails last have "fst ?run = Inl (LibraryError ''FileNotFoundError'')" by blast
  with last show ?thesis by simp
qed

section \<open>The answer of \<^verbatim>\<open>perform_blip_qa\<close>\<close>

text \<open>
  Claim C2. \<^verbatim>\<open>perform_blip_qa(image_path, question)\<close> returns \<open>answer\<close> exactly when the
  libraries answer its seven calls without raising (load the processor, load the model, open
  the image, convert it, run the processor, generate, decode), the processor's output being
  a mapping and the batch of generated sequences not empty. What it returns is then the
  result of \<^verbatim>\<open>processor.decode\<close> applied to the first generated sequence with
  \<^verbatim>\<open>skip_special_tokens=True\<close>, and nothing else happens: only the world and the log of
  calls differ after the call. The kernel is one in which the imports of the cell have run.
\<close>

theorem perform_blip_qa_returns_decoded_answer:
  assumes "blip_imports s"
  shows "perform_blip_qa L image_path question s = (Inr answer, s') \<longleftrightarrow>
     (\<exists>proc model img rgb inputs seqs w'.
        seqs \<noteq> [] \<and>
        answers L (world s)
          (blip_qa_events (grad_enabled s) image_path question proc model img rgb inputs seqs
             answer) w' \<and>
        s' = s\<lparr>world := w',
               trace := trace s @
                 blip_qa_events (grad_enabled s) image_path question proc model img rgb inputs
                   seqs answer\<rparr>)"
proof
  assume run: "perform_blip_qa L image_path question s = (Inr answer, s')"
  let ?evs = "new_events s s'"
  note r = blip_qa_returns [OF assms run]
  have "s' = s\<lparr>world := world s', trace := trace s @ ?evs\<rparr>"
    using r by (intro state_eqI) simp_all
  with r show "\<exists>proc model img rgb inputs seqs w'.
        seqs \<noteq> [] \<and>
        answers L (world s)
          (blip_qa_events (grad_enabled s) image_path question proc model img rgb inputs seqs
             answer) w' \<and>
        s' = s\<lparr>world := w',
               trace := trace s @
                 blip_qa_events (grad_enabled s) image_path question proc model img rgb inputs
                   seqs answer\<rparr>"
    by (metis (no_types))
next
  assume "\<exists>proc model img rgb inputs seqs w'.
        seqs \<noteq> [] \<and>
        answers L (world s)
          (blip_qa_events (grad_enabled s) image_path question proc model img rgb inputs seqs
             answer) w' \<and>
        s' = s\<lparr>world := w',
               trace := trace s @
                 blip_qa_events (grad_enabled s) image_path question proc model img rgb inputs
                   seqs answer\<rparr>"
  then show "perform_blip_qa L image_path question s = (Inr answer, s')"
    using blip_qa_runs [OF assms] by blast
qed

theorem perform_blip_qa_returns_decoded_answer_witness:
  "blip_imports blip_kernel \<and>
   perform_blip_qa demo_lib (VStr ''cat.jpg'') (VStr ''What color is the cat?'') blip_kernel =
     (Inr (VStr ''orange and white''),
      blip_kernel\<lparr>world := 7,
        trace := trace blip_kernel @
          blip_qa_events True (VStr ''cat.jpg'') (VStr ''What color is the cat?'')
            (VHandle 3) (VHandle 4) (VHandle 10) (VHandle 12) [(''pixel_values'', VHandle 20)]
            [VList [VInt 101, VInt 4589, VInt 102]] (VStr ''orange and white'')\<rparr>)"
proof -
  have imp: "blip_imports blip_kernel" by (simp add: blip_imports_def blip_kernel_def)
  have g: "grad_enabled blip_kernel = True" "world blip_kernel = 0"
    by (simp_all add: blip_kernel_def)
  have ans: "answers demo_lib 0
     (blip_qa_events True (VStr ''cat.jpg'') (VStr ''What color is the cat?'')
        (VHandle 3) (VHandle 4) (VHandle 10) (VHandle 12) [(''pixel_values'', VHandle 20)]
        [VList [VInt 101, VInt 4589, VInt 102]] (VStr ''orange and white'')) 7"
    by (simp add: blip_qa_events_def demo_lib_def)
  have "perform_blip_qa demo_lib (VStr ''cat.jpg'') (VStr ''What color is the cat?'') blip_kernel =
     (Inr (VStr ''orange and white''),
      blip_kernel\<lparr>world := 7,
        trace := trace blip_kernel @
          blip_qa_events True (VStr ''cat.jpg'') (VStr ''What color is the cat?'')
            (VHandle 3) (VHandle 4) (VHandle 10) (VHandle 12) [(''pixel_values'', VHandle 20)]
            [VList [VInt 101, VInt 4589, VInt 102]] (VStr ''orange and white'')\<rparr>)"
    apply (rule iffD2 [OF perform_blip_qa_returns_decoded_answer [OF imp]])
    apply (rule exI [of _ "VHandle 3"])
    apply (rule exI [of _ "VHandle 4"])
    apply (rule exI [of _ "VHandle 10"])
    apply (rule exI [of _ "VHandle 12"])
    apply (rule exI [of _ "[(''pixel_values'', VHandle 20)]"])
    apply (rule exI [of _ "[VList [VInt 101, VInt 4589, VInt 102]]"])
    apply (rule exI [of _ "7"])
    using ans apply (simp add: g)
    done
  with imp show ?thesis by simp
qed

section \<open>What the CLIP cells print\<close>




end
